theory Spec2Isabelle
  imports Complex_Main "HOL-Library.Word"
begin

unbundle bit_operations_syntax

section \<open>MediaCrush: content-addressed ingestion (mediacrush/files.py)\<close>

text \<open>
  The module is Python 2: \<open>str\<close> is a byte string, so file contents, digests, base64
  text, filenames and keys are all modelled as \<open>string\<close> (a list of 8-bit characters).
  Exceptions are values of the type \<open>error\<close>; a function that may raise returns
  \<open>error + 'a\<close>.
\<close>

datatype error =
    IndexError
  | NameError string
  | OSError string
  | TypeError
  | ValueError
  | KeyError string
  | ZeroDivisionError
  | ResponseError

subsection \<open>String primitives of Python used by the module\<close>

text \<open>\<open>str.lower()\<close> on a byte string: only the ASCII letters A to Z change.\<close>

definition lower_char :: "char \<Rightarrow> char" where
  "lower_char c =
     (let n = (of_char c :: nat) in if 65 \<le> n \<and> n \<le> 90 then char_of (n + 32) else c)"

definition lower :: "string \<Rightarrow> string" where
  "lower s = map lower_char s"

text \<open>\<open>s.split(sep)\<close> for a one-character separator: never the empty list.\<close>

fun split_on :: "char \<Rightarrow> string \<Rightarrow> string list" where
  "split_on sep [] = [[]]"
| "split_on sep (x # xs) =
     (if x = sep then [] # split_on sep xs
      else (case split_on sep xs of [] \<Rightarrow> [[x]] | w # ws \<Rightarrow> (x # w) # ws))"

text \<open>
  \<open>s.rsplit(sep, 1)\<close>: at most one split, at the last occurrence of the separator; a
  string without the separator comes back as the one-element list.
\<close>

definition rsplit1 :: "char \<Rightarrow> string \<Rightarrow> string list" where
  "rsplit1 sep s =
     (if sep \<in> set s
      then [rev (tl (dropWhile (\<lambda>c. c \<noteq> sep) (rev s))), rev (takeWhile (\<lambda>c. c \<noteq> sep) (rev s))]
      else [s])"

text \<open>\<open>s.replace(old, new)\<close> for one-character \<open>old\<close> and \<open>new\<close>: every occurrence.\<close>

definition replace_char :: "char \<Rightarrow> char \<Rightarrow> string \<Rightarrow> string" where
  "replace_char old new s = map (\<lambda>c. if c = old then new else c) s"

text \<open>
  \<open>template % args\<close> with string arguments, for the conversions \<open>%s\<close> and \<open>%%\<close>.
  Each \<open>%s\<close> takes the next argument; a \<open>%s\<close> with no argument left, or an argument
  left over at the end, raises TypeError. Any other conversion character is outside the
  fragment modelled here and is reported as ValueError.
\<close>

fun pct_format :: "string \<Rightarrow> string list \<Rightarrow> error + string" where
  "pct_format [] [] = Inr []"
| "pct_format [] (a # as) = Inl TypeError"
| "pct_format (c # cs) as =
     (if c = CHR ''%'' then
        (case cs of
           [] \<Rightarrow> Inl ValueError
         | d # ds \<Rightarrow>
            (if d = CHR ''s'' then
               (case as of
                  [] \<Rightarrow> Inl TypeError
                | a # as' \<Rightarrow> (case pct_format ds as' of Inl e \<Rightarrow> Inl e | Inr r \<Rightarrow> Inr (a @ r)))
             else if d = CHR ''%'' then
               (case pct_format ds as of Inl e \<Rightarrow> Inl e | Inr r \<Rightarrow> Inr (CHR ''%'' # r))
             else Inl ValueError))
      else (case pct_format cs as of Inl e \<Rightarrow> Inl e | Inr r \<Rightarrow> Inr (c # r)))"

subsection \<open>Extensions and the allow-list\<close>

definition VIDEO_EXTENSIONS :: "string set" where
  "VIDEO_EXTENSIONS = {''gif'', ''ogv'', ''mp4'', ''webm''}"

definition AUDIO_EXTENSIONS :: "string set" where
  "AUDIO_EXTENSIONS = {''mp3'', ''ogg'', ''oga''}"

definition EXTENSIONS :: "string set" where
  "EXTENSIONS = {''png'', ''jpg'', ''jpe'', ''jpeg'', ''svg''} \<union> VIDEO_EXTENSIONS \<union> AUDIO_EXTENSIONS"

text \<open>
  \<open>extension = lambda f: f.rsplit('.', 1)[1].lower()\<close>: the index 1 raises IndexError
  when the name has no dot.
\<close>

definition extension :: "string \<Rightarrow> error + string" where
  "extension f = (case rsplit1 CHR ''.'' f of _ # e # _ \<Rightarrow> Inr (lower e) | _ \<Rightarrow> Inl IndexError)"

text \<open>
  \<open>'.' in filename and extension(filename) in EXTENSIONS\<close>: \<open>and\<close> evaluates its right
  operand only when the left one is true.
\<close>

definition allowed_file :: "string \<Rightarrow> error + bool" where
  "allowed_file filename =
     (if CHR ''.'' \<in> set filename
      then (case extension filename of Inl e \<Rightarrow> Inl e | Inr x \<Rightarrow> Inr (x \<in> EXTENSIONS))
      else Inr False)"

subsection \<open>The byte source\<close>

text \<open>
  The object handed to \<open>upload\<close> (a request's file or a \<open>URLFile\<close>): its declared content
  type, its truth value under \<open>if f\<close>, the bytes of the underlying stream and the stream's
  cursor.
\<close>

record upload_file =
  content_type :: "string option"
  truthy :: bool
  content :: string
  pos :: nat

definition file_seek :: "nat \<Rightarrow> upload_file \<Rightarrow> upload_file" where
  "file_seek n f = f\<lparr>pos := n\<rparr>"

definition file_seek_end :: "upload_file \<Rightarrow> upload_file" where
  "file_seek_end f = f\<lparr>pos := length (content f)\<rparr>"

definition file_tell :: "upload_file \<Rightarrow> nat" where
  "file_tell f = pos f"

definition file_read :: "upload_file \<Rightarrow> string \<times> upload_file" where
  "file_read f = (drop (pos f) (content f), f\<lparr>pos := max (pos f) (length (content f))\<rparr>)"

definition file_length :: "upload_file \<Rightarrow> nat \<times> upload_file" where
  "file_length f = (let f1 = file_seek_end f; by = file_tell f1 in (by, file_seek 0 f1))"

subsection \<open>hashlib.md5 and base64.b64encode\<close>

text \<open>MD5 as in RFC 1321, on 32-bit words; the digest is 16 bytes.\<close>

definition md5_shifts :: "nat list" where
  "md5_shifts = concat (replicate 4 [7, 12, 17, 22]) @ concat (replicate 4 [5, 9, 14, 20])
     @ concat (replicate 4 [4, 11, 16, 23]) @ concat (replicate 4 [6, 10, 15, 21])"

definition md5_K :: "32 word list" where
  "md5_K =
    [0xd76aa478, 0xe8c7b756, 0x242070db, 0xc1bdceee,
     0xf57c0faf, 0x4787c62a, 0xa8304613, 0xfd469501,
     0x698098d8, 0x8b44f7af, 0xffff5bb1, 0x895cd7be,
     0x6b901122, 0xfd987193, 0xa679438e, 0x49b40821,
     0xf61e2562, 0xc040b340, 0x265e5a51, 0xe9b6c7aa,
     0xd62f105d, 0x02441453, 0xd8a1e681, 0xe7d3fbc8,
     0x21e1cde6, 0xc33707d6, 0xf4d50d87, 0x455a14ed,
     0xa9e3e905, 0xfcefa3f8, 0x676f02d9, 0x8d2a4c8a,
     0xfffa3942, 0x8771f681, 0x6d9d6122, 0xfde5380c,
     0xa4beea44, 0x4bdecfa9, 0xf6bb4b60, 0xbebfbc70,
     0x289b7ec6, 0xeaa127fa, 0xd4ef3085, 0x04881d05,
     0xd9d4d039, 0xe6db99e5, 0x1fa27cf8, 0xc4ac5665,
     0xf4292244, 0x432aff97, 0xab9423a7, 0xfc93a039,
     0x655b59c3, 0x8f0ccc92, 0xffeff47d, 0x85845dd1,
     0x6fa87e4f, 0xfe2ce6e0, 0xa3014314, 0x4e0811a1,
     0xf7537e82, 0xbd3af235, 0x2ad7d2bb, 0xeb86d391]"

definition le_word :: "string \<Rightarrow> 32 word" where
  "le_word bs = foldr (\<lambda>c w. of_nat (of_char c) + push_bit 8 w) bs 0"

definition word_bytes :: "32 word \<Rightarrow> string" where
  "word_bytes w = map (\<lambda>i. char_of (unat (drop_bit (8 * i) w AND 255))) [0, 1, 2, 3]"

fun chunks :: "nat \<Rightarrow> nat \<Rightarrow> 'a list \<Rightarrow> 'a list list" where
  "chunks 0 n xs = []"
| "chunks (Suc k) n xs = take n xs # chunks k n (drop n xs)"

definition md5_pad :: "string \<Rightarrow> string" where
  "md5_pad m =
     (let l = length m;
          z = (119 - l mod 64) mod 64;
          bits = (of_nat l * 8 :: 64 word)
      in m @ [char_of (128::nat)] @ replicate z (char_of (0::nat))
         @ map (\<lambda>i. char_of (unat (drop_bit (8 * i) bits AND 255))) [0, 1, 2, 3, 4, 5, 6, 7])"

type_synonym md5_state = "32 word \<times> 32 word \<times> 32 word \<times> 32 word"

definition md5_step :: "32 word list \<Rightarrow> nat \<Rightarrow> md5_state \<Rightarrow> md5_state" where
  "md5_step M i s = (case s of (a, b, c, d) \<Rightarrow>
     (let (f, g) =
        (if i < 16 then ((b AND c) OR (NOT b AND d), i)
         else if i < 32 then ((d AND b) OR (NOT d AND c), (5 * i + 1) mod 16)
         else if i < 48 then (b XOR c XOR d, (3 * i + 5) mod 16)
         else (c XOR (b OR NOT d), (7 * i) mod 16));
          f' = f + a + md5_K ! i + M ! g
      in (d, b + word_rotl (md5_shifts ! i) f', b, c)))"

definition md5_rounds :: "32 word list \<Rightarrow> md5_state \<Rightarrow> md5_state" where
  "md5_rounds M s = foldl (\<lambda>t i. md5_step M i t) s [0..<64]"

definition md5_block :: "md5_state \<Rightarrow> string \<Rightarrow> md5_state" where
  "md5_block s blk = (case s of (a0, b0, c0, d0) \<Rightarrow>
     (case md5_rounds (map le_word (chunks 16 4 blk)) s of
        (a, b, c, d) \<Rightarrow> (a0 + a, b0 + b, c0 + c, d0 + d)))"

definition md5 :: "string \<Rightarrow> string" where
  "md5 m = (let p = md5_pad m in
     case foldl md5_block (0x67452301, 0xefcdab89, 0x98badcfe, 0x10325476)
            (chunks (length p div 64) 64 p) of
       (a, b, c, d) \<Rightarrow> word_bytes a @ word_bytes b @ word_bytes c @ word_bytes d)"

text \<open>Standard base64 with padding, three bytes to four characters.\<close>

definition b64_alphabet :: string where
  "b64_alphabet = ''ABCDEFGHIJKLMNOPQRSTUVWXYZabcdefghijklmnopqrstuvwxyz0123456789+/''"

definition b64_char :: "nat \<Rightarrow> char" where
  "b64_char n = b64_alphabet ! (n mod 64)"

fun b64encode :: "string \<Rightarrow> string" where
  "b64encode (a # b # c # rest) =
     (let n = of_char a * 65536 + of_char b * 256 + of_char c
      in [b64_char (n div 262144), b64_char (n div 4096), b64_char (n div 64), b64_char n]
         @ b64encode rest)"
| "b64encode [a, b] =
     (let n = of_char a * 65536 + of_char b * 256
      in [b64_char (n div 262144), b64_char (n div 4096), b64_char (n div 64), CHR ''=''])"
| "b64encode [a] =
     (let n = of_char a * 65536
      in [b64_char (n div 262144), b64_char (n div 4096), CHR ''='', CHR ''=''])"
| "b64encode [] = []"

subsection \<open>Identifier derivation\<close>

text \<open>\<open>get_hash\<close>: \<open>f.seek(0)\<close>, then the digest of \<open>f.read()\<close>.\<close>

definition get_hash :: "upload_file \<Rightarrow> string \<times> upload_file" where
  "get_hash f = (let (bytes, f') = file_read (file_seek 0 f) in (md5 bytes, f'))"

text \<open>\<open>to_id = lambda h: base64.b64encode(h)[:12].replace('/', '_').replace('+', '-')\<close>\<close>

definition to_id :: "string \<Rightarrow> string" where
  "to_id h = replace_char CHR ''+'' CHR ''-'' (replace_char CHR ''/'' CHR ''_'' (take 12 (b64encode h)))"

text \<open>
  The identifier as the specification words it: hash the full content, encode with the
  URL-safe variant of base64 (\<open>+\<close> to \<open>-\<close>, \<open>/\<close> to \<open>_\<close>), truncate to 12 characters.
\<close>

definition urlsafe_char :: "char \<Rightarrow> char" where
  "urlsafe_char c = (if c = CHR ''+'' then CHR ''-'' else if c = CHR ''/'' then CHR ''_'' else c)"

definition deriveIdentifier_spec :: "string \<Rightarrow> string" where
  "deriveIdentifier_spec bytes = take 12 (map urlsafe_char (b64encode (md5 bytes)))"

subsection \<open>Collaborators and shared state\<close>

text \<open>
  Modelled from the spec: the MediaItem record of \<open>objects.File\<close>, which is not part of
  this module (identifier, original filename, byte size at creation, source address).
\<close>

record media_item =
  hash :: string
  original :: string
  compression :: nat
  ip :: string

text \<open>A redis value: a string (\<open>set\<close>/\<open>get\<close>) or a list (\<open>lpush\<close>).\<close>

datatype rvalue = RString string | RList "string list"

text \<open>
  Everything the functions of the module read or change outside their arguments: the files
  under the storage root (path to bytes), the metadata store (identifier to MediaItem),
  the redis keyspace, the rate limiter's own state, and what \<open>print\<close> wrote.
\<close>

record 'rl state =
  fs :: "string \<rightharpoonup> string"
  metadata :: "string \<rightharpoonup> media_item"
  redis :: "string \<rightharpoonup> rvalue"
  ratelimit :: 'rl
  stdout :: "string list"

text \<open>
  What the module takes from its imports and from the request: \<open>current_app.debug\<close>,
  \<open>_cfg("storage_folder")\<close>, the application prefix of redis keys, the system's
  \<open>mimetypes.guess_extension\<close> table, \<open>secure_ip()\<close> of the request, and the two
  functions of the rate limiter.
\<close>

record 'rl env =
  debug :: bool
  storage_folder :: string
  redis_prefix :: string
  guess_extension :: "string \<Rightarrow> string option"
  secure_ip :: string
  rate_limit_update :: "nat \<Rightarrow> 'rl \<Rightarrow> 'rl"
  rate_limit_exceeded :: "'rl \<Rightarrow> bool"

text \<open>
  Modelled from the spec: \<open>_k\<close> of the database module, which is not part of this
  module. All keys are namespaced under an application prefix.
\<close>

definition redis_k :: "'rl env \<Rightarrow> string \<Rightarrow> string" where
  "redis_k env x = redis_prefix env @ x"

definition r_exists :: "string \<Rightarrow> 'rl state \<Rightarrow> bool" where
  "r_exists key s = (redis s key \<noteq> None)"

text \<open>\<open>r.get\<close>: the string, Python's None for a missing key, an error reply for a list.\<close>

definition r_get :: "string \<Rightarrow> 'rl state \<Rightarrow> error + string option" where
  "r_get key s =
     (case redis s key of
        None \<Rightarrow> Inr None
      | Some (RString v) \<Rightarrow> Inr (Some v)
      | Some (RList vs) \<Rightarrow> Inl ResponseError)"

definition r_delete :: "string \<Rightarrow> 'rl state \<Rightarrow> 'rl state" where
  "r_delete key s = s\<lparr>redis := (redis s)(key := None)\<rparr>"

definition r_set :: "string \<Rightarrow> string \<Rightarrow> 'rl state \<Rightarrow> 'rl state" where
  "r_set key v s = s\<lparr>redis := (redis s)(key \<mapsto> RString v)\<rparr>"

definition r_lpush :: "string \<Rightarrow> string \<Rightarrow> 'rl state \<Rightarrow> error + 'rl state" where
  "r_lpush key v s =
     (case redis s key of
        None \<Rightarrow> Inr (s\<lparr>redis := (redis s)(key \<mapsto> RList [v])\<rparr>)
      | Some (RList vs) \<Rightarrow> Inr (s\<lparr>redis := (redis s)(key \<mapsto> RList (v # vs))\<rparr>)
      | Some (RString _) \<Rightarrow> Inl ResponseError)"

text \<open>
  Modelled from the spec: the MetadataStore behind \<open>objects.File\<close> (\<open>save\<close>,
  \<open>from_hash\<close>, \<open>delete\<close> by identifier), which is not part of this module. Loading an
  identifier that has no record is an error.
\<close>

definition File_save :: "media_item \<Rightarrow> 'rl state \<Rightarrow> 'rl state" where
  "File_save item s = s\<lparr>metadata := (metadata s)(hash item \<mapsto> item)\<rparr>"

definition File_from_hash :: "string \<Rightarrow> 'rl state \<Rightarrow> error + media_item" where
  "File_from_hash h s = (case metadata s h of None \<Rightarrow> Inl (KeyError h) | Some item \<Rightarrow> Inr item)"

definition File_delete :: "media_item \<Rightarrow> 'rl state \<Rightarrow> 'rl state" where
  "File_delete item s = s\<lparr>metadata := (metadata s)(hash item := None)\<rparr>"

subsection \<open>The storage root\<close>

text \<open>\<open>os.path.join\<close> of two components.\<close>

definition path_join :: "string \<Rightarrow> string \<Rightarrow> string" where
  "path_join a b =
     (if take 1 b = ''/'' then b
      else if a = [] \<or> last a = CHR ''/'' then a @ b
      else a @ ''/'' @ b)"

definition file_storage :: "'rl env \<Rightarrow> string \<Rightarrow> string" where
  "file_storage env f = path_join (storage_folder env) f"

definition os_path_exists :: "string \<Rightarrow> 'rl state \<Rightarrow> bool" where
  "os_path_exists path s = (fs s path \<noteq> None)"

definition os_path_getsize :: "string \<Rightarrow> 'rl state \<Rightarrow> error + nat" where
  "os_path_getsize path s =
     (case fs s path of None \<Rightarrow> Inl (OSError path) | Some bytes \<Rightarrow> Inr (length bytes))"

definition os_unlink :: "string \<Rightarrow> 'rl state \<Rightarrow> error + 'rl state" where
  "os_unlink path s =
     (case fs s path of
        None \<Rightarrow> Inl (OSError path)
      | Some bytes \<Rightarrow> Inr (s\<lparr>fs := (fs s)(path := None)\<rparr>))"

text \<open>
  \<open>URLFile.save\<close>: the loop reads \<open>bufsize\<close> bytes at a time from the cursor and appends
  them to the freshly opened file until a read comes back empty.
\<close>

function copy_chunks :: "nat \<Rightarrow> string \<Rightarrow> string" where
  "copy_chunks bufsize rest =
     (if take bufsize rest \<noteq> []
      then take bufsize rest @ copy_chunks bufsize (drop bufsize rest)
      else [])"
  by pat_completeness auto
termination
  by (relation "measure (\<lambda>(bufsize, rest). length rest)") auto

declare copy_chunks.simps [simp del]

definition file_save :: "string \<Rightarrow> upload_file \<Rightarrow> 'rl state \<Rightarrow> 'rl state" where
  "file_save path f s =
     s\<lparr>fs := (fs s)(path \<mapsto> copy_chunks (1024 * 1024) (drop (pos f) (content f)))\<rparr>"

subsection \<open>The content-type table\<close>

record proc_entry =
  formats :: "string list"
  extras :: "string list option"
  time :: "nat option"
  processor :: "string option"

definition processing_needed :: "(string \<times> proc_entry) list" where
  "processing_needed =
    [(''image/gif'', \<lparr>formats = [''video/mp4'', ''video/ogv'', ''video/webm''],
                      extras = Some [''image/png''], time = None, processor = Some ''GifProcessor''\<rparr>),
     (''video/mp4'', \<lparr>formats = [''video/webm'', ''video/ogv''],
                      extras = Some [''image/png''], time = Some 600, processor = None\<rparr>),
     (''video/webm'', \<lparr>formats = [''video/mp4'', ''video/ogv''],
                       extras = Some [''image/png''], time = Some 600, processor = None\<rparr>),
     (''video/ogv'', \<lparr>formats = [''video/mp4'', ''video/webm''],
                      extras = Some [''image/png''], time = Some 600, processor = None\<rparr>),
     (''image/jpeg'', \<lparr>formats = [], extras = None, time = Some 5, processor = None\<rparr>),
     (''image/png'', \<lparr>formats = [], extras = None, time = Some 60, processor = None\<rparr>),
     (''image/svg'', \<lparr>formats = [], extras = None, time = Some 5, processor = None\<rparr>),
     (''audio/mp3'', \<lparr>formats = [''audio/ogg''], extras = None, time = Some 120, processor = None\<rparr>),
     (''audio/ogg'', \<lparr>formats = [''audio/oga'', ''audio/mp3''],
                      extras = None, time = Some 120, processor = None\<rparr>)]"

subsection \<open>Compression accounting\<close>

text \<open>
  The loop of \<open>compression_rate\<close> over the target formats: a rendition whose size cannot
  be read (OSError) is skipped.
\<close>

fun min_conv_size :: "'rl env \<Rightarrow> string \<Rightarrow> string list \<Rightarrow> nat \<Rightarrow> 'rl state \<Rightarrow> nat" where
  "min_conv_size env f [] minsize s = minsize"
| "min_conv_size env f (f_ext # rest) minsize s =
     (case os_path_getsize (file_storage env (f @ ''.'' @ f_ext)) s of
        Inl e \<Rightarrow> min_conv_size env f rest minsize s
      | Inr convsize \<Rightarrow> min_conv_size env f rest (min minsize convsize) s)"

text \<open>
  What \<open>compression_rate\<close> returns: the integer 0, or the float
  \<open>round(1 / (minsize / float(original_size)), 2)\<close>. Floating-point arithmetic is not
  interpreted here: the float is kept as the two integers it is computed from, the
  smallest size first. Both divisions raise ZeroDivisionError on a zero divisor.
\<close>

datatype rate = RateZero | RoundedInverse nat nat

definition compression_rate :: "'rl env \<Rightarrow> string \<Rightarrow> 'rl state \<Rightarrow> error + rate" where
  "compression_rate env f s =
     (case File_from_hash f s of
        Inl e \<Rightarrow> Inl e
      | Inr f_original \<Rightarrow>
         (case extension (original f_original) of
            Inl e \<Rightarrow> Inl e
          | Inr ext \<Rightarrow>
             (case map_of processing_needed ext of
                None \<Rightarrow> Inr RateZero
              | Some entry \<Rightarrow>
                 (if length (formats entry) = 0 then Inr RateZero
                  else
                    (let original_size = compression f_original in
                     case os_path_getsize (file_storage env (original f_original)) s of
                       Inl e \<Rightarrow> Inl e
                     | Inr osize \<Rightarrow>
                        (let minsize = min_conv_size env f (formats entry) (min original_size osize) s
                         in if original_size = 0 then Inl ZeroDivisionError
                            else if minsize = 0 then Inl ZeroDivisionError
                            else Inr (RoundedInverse minsize original_size)))))))"

subsection \<open>Ingestion\<close>

text \<open>\<open>"." + f.content_type.split("/")[1]\<close>: IndexError when the type has no slash.\<close>

definition mimetype_tail_ext :: "string \<Rightarrow> error + string" where
  "mimetype_tail_ext ct =
     (case split_on CHR ''/'' ct of _ # b # _ \<Rightarrow> Inr (''.'' @ b) | _ \<Rightarrow> Inl IndexError)"

text \<open>
  The first statement of \<open>upload\<close>: the filename after the extension derived from the
  declared content type has been appended. A content type that is None or empty is false
  under \<open>if\<close>; so is an extension that is None or empty under \<open>if not ext\<close>.
\<close>

definition resulting_filename :: "'rl env \<Rightarrow> upload_file \<Rightarrow> string \<Rightarrow> error + string" where
  "resulting_filename env f filename =
     (case content_type f of
        None \<Rightarrow> Inr filename
      | Some ct \<Rightarrow>
         (if ct \<noteq> [] \<and> ct \<noteq> ''application/octet-stream'' then
            (case (case guess_extension env ct of
                     None \<Rightarrow> mimetype_tail_ext ct
                   | Some ext \<Rightarrow> if ext = [] then mimetype_tail_ext ct else Inr ext) of
               Inl e \<Rightarrow> Inl e
             | Inr ext \<Rightarrow> Inr (filename @ ext))
          else Inr filename))"

text \<open>
  What \<open>upload\<close> returns: the identifier alone, or a pair of a string and a status code.
\<close>

datatype upload_result = Identifier string | Status string nat

definition upload ::
  "'rl env \<Rightarrow> upload_file \<Rightarrow> string \<Rightarrow> 'rl state \<Rightarrow> (error + upload_result) \<times> 'rl state" where
  "upload env f filename0 s =
     (case resulting_filename env f filename0 of
        Inl e \<Rightarrow> (Inl e, s)
      | Inr filename \<Rightarrow>
         (case (if truthy f then allowed_file filename else Inr False) of
            Inl e \<Rightarrow> (Inl e, s)
          | Inr ok \<Rightarrow>
             (if ok then
                (let (limited, f1, s1) =
                       (if \<not> debug env then
                          (let (by, f') = file_length f;
                               s' = s\<lparr>ratelimit := rate_limit_update env by (ratelimit s)\<rparr>
                           in (rate_limit_exceeded env (ratelimit s'), f', s'))
                        else (False, f, s))
                 in if limited then (Inr (Status ''ratelimit'' 420), s1)
                    else
                      (let (h, f2) = get_hash f1;
                           identifier = to_id h
                       in case extension filename of
                            Inl e \<Rightarrow> (Inl e, s1)
                          | Inr ext \<Rightarrow>
                             (let filename' = identifier @ ''.'' @ ext;
                                  path = file_storage env filename'
                              in if os_path_exists path s1 then (Inr (Status identifier 409), s1)
                                 else
                                   (let s2 = file_save path (file_seek 0 f2) s1
                                    in case os_path_getsize path s2 of
                                         Inl e \<Rightarrow> (Inl e, s2)
                                       | Inr nbytes \<Rightarrow>
                                          (let file_object =
                                                 \<lparr>hash = identifier, original = filename',
                                                  compression = nbytes, ip = secure_ip env\<rparr>;
                                               s3 = File_save file_object s2
                                           in case r_lpush (redis_k env ''gifqueue'') identifier s3 of
                                                Inl e \<Rightarrow> (Inl e, s3)
                                              | Inr s4 \<Rightarrow>
                                                 (Inr (Identifier identifier),
                                                  r_set (redis_k env (identifier @ ''.lock'')) ''1'' s4))))))
              else (Inr (Status ''no'' 415), s))))"

subsection \<open>Deletion\<close>

text \<open>
  Name lookup inside a function body: its locals, and otherwise NameError, since no
  module-level binding and no builtin of the names looked up here exists.
\<close>

definition load_name :: "(string \<rightharpoonup> string) \<Rightarrow> string \<Rightarrow> error + string" where
  "load_name locals n = (case locals n of None \<Rightarrow> Inl (NameError n) | Some v \<Rightarrow> Inr v)"

text \<open>
  \<open>delete_file_storage(path)\<close>: the try block is \<open>os.unlink(file_storage(f))\<close>, where the
  only local is the parameter \<open>path\<close>; the bare \<open>except\<close> catches every exception and
  prints.
\<close>

definition delete_file_storage :: "'rl env \<Rightarrow> string \<Rightarrow> 'rl state \<Rightarrow> 'rl state" where
  "delete_file_storage env path s =
     (case (case load_name [''path'' \<mapsto> path] ''f'' of
              Inl e \<Rightarrow> Inl e
            | Inr f \<Rightarrow> os_unlink (file_storage env f) s) of
        Inl e \<Rightarrow> s\<lparr>stdout := stdout s @ [''Failed to delete file '' @ path]\<rparr>
      | Inr s' \<Rightarrow> s')"

fun delete_renditions :: "'rl env \<Rightarrow> string \<Rightarrow> string list \<Rightarrow> 'rl state \<Rightarrow> 'rl state" where
  "delete_renditions env h [] s = s"
| "delete_renditions env h (f_ext # rest) s =
     delete_renditions env h rest (delete_file_storage env (h @ ''.'' @ f_ext) s)"

definition delete_file :: "'rl env \<Rightarrow> media_item \<Rightarrow> 'rl state \<Rightarrow> (error + unit) \<times> 'rl state" where
  "delete_file env f s =
     (case extension (original f) of
        Inl e \<Rightarrow> (Inl e, s)
      | Inr ext \<Rightarrow>
         (let s1 = delete_file_storage env (original f) s;
              s2 = (case map_of processing_needed ext of
                      None \<Rightarrow> s1
                    | Some entry \<Rightarrow> delete_renditions env (hash f) (formats entry) s1)
          in (Inr (), File_delete f s2)))"

subsection \<open>Processing status\<close>

text \<open>
  \<open>processing_status(id)\<close>. The keys tested and read are \<open>_k("%s.lock" % id)\<close> and
  \<open>_k("%s.error" % id)\<close>; the key deleted is \<open>_k("%s.error") % id\<close>, formatted after the
  prefix was put in front. The result is a string, or Python's None from \<open>r.get\<close>.
\<close>

definition processing_status ::
  "'rl env \<Rightarrow> string \<Rightarrow> 'rl state \<Rightarrow> (error + string option) \<times> 'rl state" where
  "processing_status env ident s =
     (let filename = ident in
      if \<not> r_exists (redis_k env (filename @ ''.lock'')) s then
        (if r_exists (redis_k env (filename @ ''.error'')) s then
           (case r_get (redis_k env (filename @ ''.error'')) s of
              Inl e \<Rightarrow> (Inl e, s)
            | Inr failure_type \<Rightarrow>
               (case pct_format (redis_k env ''%s.error'') [filename] of
                  Inl e \<Rightarrow> (Inl e, s)
                | Inr key \<Rightarrow> (Inr failure_type, r_delete key s)))
         else (Inr (Some ''done''), s))
      else (Inr (Some ''processing''), s))"

subsection \<open>Auxiliary notions for the statements\<close>

text \<open>
  The state once the rate limiter has been consulted: unchanged in debug mode, and with
  the byte length of the source recorded otherwise.
\<close>

definition after_limit :: "'rl env \<Rightarrow> upload_file \<Rightarrow> 'rl state \<Rightarrow> 'rl state" where
  "after_limit env f s =
     (if debug env then s
      else s\<lparr>ratelimit := rate_limit_update env (length (content f)) (ratelimit s)\<rparr>)"

text \<open>The allowed set as the specification lists it.\<close>

definition claimed_extensions :: "string set" where
  "claimed_extensions =
     {''png'', ''jpg'', ''jpeg'', ''svg'', ''gif'', ''ogv'', ''mp4'', ''webm'', ''mp3'', ''ogg'', ''oga''}"

subsection \<open>Concrete inputs\<close>

text \<open>
  A deployment: a few lines of the system's MIME table, a storage root, the key prefix, a
  rate limiter that adds up bytes and trips above 1000, and a six-byte source.
\<close>

definition mime_table :: "string \<Rightarrow> string option" where
  "mime_table = map_of
     [(''image/gif'', ''.gif''), (''image/png'', ''.png''), (''image/jpeg'', ''.jpe''),
      (''video/mp4'', ''.mp4''), (''audio/mpeg'', ''.mp3''), (''text/plain'', ''.txt'')]"

definition demo_env :: "nat env" where
  "demo_env =
     \<lparr>debug = False, storage_folder = ''/srv/storage'', redis_prefix = ''mediacrush.'',
      guess_extension = mime_table, secure_ip = ''203.0.113.7'',
      rate_limit_update = (\<lambda>n used. used + n), rate_limit_exceeded = (\<lambda>used. 1000 < used)\<rparr>"

definition empty_state :: "nat state" where
  "empty_state =
     \<lparr>fs = Map.empty, metadata = Map.empty, redis = Map.empty, ratelimit = 0, stdout = []\<rparr>"

definition gif_upload :: upload_file where
  "gif_upload = \<lparr>content_type = None, truthy = True, content = ''GIF89a'', pos = 0\<rparr>"

text \<open>
  A source that is false under \<open>if f\<close> (a form field sent without a file name) and declares
  the content type \<open>image/gif\<close>.
\<close>

definition nameless_upload :: upload_file where
  "nameless_upload =
     \<lparr>content_type = Some ''image/gif'', truthy = False, content = ''GIF89a'', pos = 0\<rparr>"

text \<open>The state reached from \<open>empty_state\<close> by storing the six-byte source as \<open>cat.gif\<close>.\<close>

definition gif_item :: media_item where
  "gif_item =
     \<lparr>hash = ''GsIQnUfbxyVR'', original = ''GsIQnUfbxyVR.gif'', compression = 6,
      ip = ''203.0.113.7''\<rparr>"

definition stored_state :: "nat state" where
  "stored_state =
     \<lparr>fs = [''/srv/storage/GsIQnUfbxyVR.gif'' \<mapsto> ''GIF89a''],
      metadata = [''GsIQnUfbxyVR'' \<mapsto> gif_item],
      redis = [''mediacrush.gifqueue'' \<mapsto> RList [''GsIQnUfbxyVR''],
               ''mediacrush.GsIQnUfbxyVR.lock'' \<mapsto> RString ''1''],
      ratelimit = 6, stdout = []\<rparr>"

text \<open>
  A state in which a worker has finished with the failure token \<open>transcode-failed\<close>: the
  lock is gone and the error marker is set.
\<close>

definition failed_state :: "nat state" where
  "failed_state =
     stored_state\<lparr>redis := [''mediacrush.gifqueue'' \<mapsto> RList [],
                            ''mediacrush.GsIQnUfbxyVR.error'' \<mapsto> RString ''transcode-failed'']\<rparr>"

text \<open>
  A GIF of 1,000,000 bytes whose worker has written an MP4 rendition of 400,000 bytes and
  an OGV rendition of 600,000 bytes and cleared the lock.
\<close>

definition bytes_of_size :: "nat \<Rightarrow> string" where
  "bytes_of_size n = replicate n (CHR ''x'')"

definition big_gif_item :: media_item where
  "big_gif_item =
     \<lparr>hash = ''GsIQnUfbxyVR'', original = ''GsIQnUfbxyVR.gif'', compression = 1000000,
      ip = ''203.0.113.7''\<rparr>"

definition transcoded_state :: "nat state" where
  "transcoded_state =
     \<lparr>fs = [''/srv/storage/GsIQnUfbxyVR.gif'' \<mapsto> bytes_of_size 1000000,
             ''/srv/storage/GsIQnUfbxyVR.mp4'' \<mapsto> bytes_of_size 400000,
             ''/srv/storage/GsIQnUfbxyVR.ogv'' \<mapsto> bytes_of_size 600000],
      metadata = [''GsIQnUfbxyVR'' \<mapsto> big_gif_item],
      redis = [''mediacrush.gifqueue'' \<mapsto> RList []],
      ratelimit = 1000000, stdout = []\<rparr>"

section \<open>Properties\<close>

subsection \<open>Identifier codec\<close>

lemma length_word_bytes: "length (word_bytes w) = 4"
  by (simp add: word_bytes_def)

lemma length_md5: "length (md5 m) = 16"
  by (simp add: md5_def Let_def length_word_bytes split: prod.split)

lemma length_b64encode_16:
  assumes "length h = 16"
  shows "length (b64encode h) = 24"
proof -
  from assms obtain x1 x2 x3 x4 x5 x6 x7 x8 x9 x10 x11 x12 x13 x14 x15 x16
    where "h = [x1, x2, x3, x4, x5, x6, x7, x8, x9, x10, x11, x12, x13, x14, x15, x16]"
    by (auto simp: length_Suc_conv eval_nat_numeral)
  then show ?thesis by (simp add: Let_def)
qed

lemma get_hash_content: "fst (get_hash f) = md5 (content f)"
  by (simp add: get_hash_def file_read_def file_seek_def)

lemma to_id_urlsafe: "to_id h = take 12 (map urlsafe_char (b64encode h))"
  by (simp add: to_id_def replace_char_def take_map urlsafe_char_def cong: map_cong)

text \<open>
  C9. The identifier computed by \<open>to_id (get_hash f)\<close> depends on the bytes of \<open>f\<close> only,
  whatever the cursor position: it is the specification's identifier of the content, that
  is, the first 12 characters of the base64 text of the 16-byte MD5 digest with \<open>/\<close>
  replaced by \<open>_\<close> and \<open>+\<close> by \<open>-\<close>. It has 12 characters and contains neither \<open>/\<close>
  nor \<open>+\<close>.
\<close>

theorem identifier_pure_urlsafe:
  "to_id (fst (get_hash f)) = deriveIdentifier_spec (content f)
   \<and> to_id (fst (get_hash (f\<lparr>pos := p\<rparr>))) = to_id (fst (get_hash f))
   \<and> length (md5 (content f)) = 16
   \<and> length (to_id (fst (get_hash f))) = 12
   \<and> CHR ''/'' \<notin> set (to_id (fst (get_hash f)))
   \<and> CHR ''+'' \<notin> set (to_id (fst (get_hash f)))"
proof -
  have a: "to_id (fst (get_hash f)) = deriveIdentifier_spec (content f)"
    by (simp add: get_hash_content to_id_urlsafe deriveIdentifier_spec_def)
  have b: "to_id (fst (get_hash (f\<lparr>pos := p\<rparr>))) = to_id (fst (get_hash f))"
    by (simp add: get_hash_content)
  have c: "length (to_id (fst (get_hash f))) = 12"
    by (simp add: get_hash_content to_id_urlsafe length_b64encode_16 length_md5)
  have d: "CHR ''/'' \<notin> set (to_id (fst (get_hash f)))"
    by (auto simp: to_id_def replace_char_def)
  have e: "CHR ''+'' \<notin> set (to_id (fst (get_hash f)))"
    by (auto simp: to_id_def replace_char_def)
  from a b c d e show ?thesis by (simp add: length_md5)
qed

subsection \<open>Helper lemmas\<close>


lemma copy_chunks_id: "0 < n \<Longrightarrow> copy_chunks n xs = xs"
proof (induction n xs rule: copy_chunks.induct)
  case (1 bufsize rest)
  show ?case
  proof (cases "take bufsize rest = []")
    case True
    with 1(2) have "rest = []" by (cases rest) auto
    then show ?thesis by (subst copy_chunks.simps) simp
  next
    case False
    with 1 have "copy_chunks bufsize (drop bufsize rest) = drop bufsize rest" by simp
    with False show ?thesis by (subst copy_chunks.simps) simp
  qed
qed

lemma extension_dot:
  "CHR ''.'' \<in> set fn \<Longrightarrow>
     extension fn = Inr (lower (rev (takeWhile (\<lambda>c. c \<noteq> CHR ''.'') (rev fn))))"
  by (simp add: extension_def rsplit1_def)

lemma extension_no_dot: "CHR ''.'' \<notin> set fn \<Longrightarrow> extension fn = Inl IndexError"
  by (simp add: extension_def rsplit1_def)

lemma extension_Inr_dot: "extension fn = Inr e \<Longrightarrow> CHR ''.'' \<in> set fn"
  by (rule ccontr) (simp add: extension_no_dot)

lemma allowed_file_Inr:
  "allowed_file fn = Inr (case extension fn of Inl e \<Rightarrow> False | Inr x \<Rightarrow> x \<in> EXTENSIONS)"
  by (cases "CHR ''.'' \<in> set fn") (simp_all add: allowed_file_def extension_dot extension_no_dot)

lemma upload_rejected:
  assumes "resulting_filename env f filename = Inr fn"
      and "\<not> truthy f \<or> allowed_file fn = Inr False"
  shows "upload env f filename s = (Inr (Status ''no'' 415), s)"
  using assms by (auto simp: upload_def)

lemma upload_accepted:
  assumes "resulting_filename env f filename = Inr fn" and "truthy f"
      and "extension fn = Inr ext" and "ext \<in> EXTENSIONS"
  shows "upload env f filename s =
    (let s1 = after_limit env f s;
         i = to_id (md5 (content f));
         name = i @ ''.'' @ ext;
         path = file_storage env name
     in if \<not> debug env \<and> rate_limit_exceeded env (ratelimit s1)
        then (Inr (Status ''ratelimit'' 420), s1)
        else if fs s1 path \<noteq> None then (Inr (Status i 409), s1)
        else
          (let s3 = s1\<lparr>fs := (fs s1)(path \<mapsto> content f),
                       metadata := (metadata s1)(i \<mapsto>
                          \<lparr>hash = i, original = name, compression = length (content f),
                           ip = secure_ip env\<rparr>)\<rparr>
           in case redis s1 (redis_k env ''gifqueue'') of
                None \<Rightarrow>
                  (Inr (Identifier i),
                   s3\<lparr>redis := (redis s1)(redis_k env ''gifqueue'' \<mapsto> RList [i],
                                           redis_k env (i @ ''.lock'') \<mapsto> RString ''1'')\<rparr>)
              | Some (RString v) \<Rightarrow> (Inl ResponseError, s3)
              | Some (RList vs) \<Rightarrow>
                  (Inr (Identifier i),
                   s3\<lparr>redis := (redis s1)(redis_k env ''gifqueue'' \<mapsto> RList (i # vs),
                                           redis_k env (i @ ''.lock'') \<mapsto> RString ''1'')\<rparr>)))"
proof -
  have al: "allowed_file fn = Inr True"
    using assms(3,4) by (simp add: allowed_file_Inr)
  note defs = upload_def Let_def after_limit_def file_length_def file_seek_end_def
        file_tell_def file_seek_def get_hash_def file_read_def os_path_exists_def
        file_save_def copy_chunks_id os_path_getsize_def File_save_def r_lpush_def r_set_def
  show ?thesis
    using assms(1,2,3) al
    by (auto simp: defs split: option.split rvalue.split)
qed

subsection \<open>The digest and identifier of a six-byte source\<close>


lemma md5_gif_bytes:
  "map (of_char :: char \<Rightarrow> nat) (md5 ''GIF89a'') =
     [26, 194, 16, 157, 71, 219, 199, 37, 81, 247, 29, 248, 157, 1, 237, 24]"
  by code_simp

lemma md5_gif:
  "md5 ''GIF89a'' = map char_of
     [26, 194, 16, 157, 71, 219, 199, 37, 81, 247, 29, 248, 157, 1, 237, 24 :: nat]"
proof -
  have "map char_of (map (of_char :: char \<Rightarrow> nat) (md5 ''GIF89a'')) = md5 ''GIF89a''"
    by (simp add: map_idI)
  then show ?thesis unfolding md5_gif_bytes by simp
qed

lemma to_id_gif: "to_id (md5 ''GIF89a'') = ''GsIQnUfbxyVR''"
  unfolding md5_gif
  by (simp add: to_id_def replace_char_def b64_char_def b64_alphabet_def Let_def)

subsection \<open>Evaluation lemmas for the concrete inputs\<close>


lemma extension_jpe: "extension ''a.jpe'' = Inr ''jpe''"
  by code_simp

lemma extension_exe: "extension ''setup.EXE'' = Inr ''exe''"
  by code_simp

lemma extension_gif: "extension ''cat.GIF'' = Inr ''gif''"
  by code_simp

lemma jpe_in: "''jpe'' \<in> EXTENSIONS" "''jpe'' \<notin> claimed_extensions"
  by (simp_all add: EXTENSIONS_def claimed_extensions_def)

lemma EXTENSIONS_eq:
  "EXTENSIONS = {''png'', ''jpg'', ''jpe'', ''jpeg'', ''svg'', ''gif'', ''ogv'', ''mp4'', ''webm'',
                 ''mp3'', ''ogg'', ''oga''}"
  by (auto simp: EXTENSIONS_def VIDEO_EXTENSIONS_def AUDIO_EXTENSIONS_def)

lemma resulting_filename_gif_upload: "resulting_filename env gif_upload name = Inr name"
  by (simp add: resulting_filename_def gif_upload_def)

lemma truthy_gif_upload: "truthy gif_upload"
  by (simp add: gif_upload_def)

lemma content_gif_upload: "content gif_upload = ''GIF89a''"
  by (simp add: gif_upload_def)

subsection \<open>The allow-list\<close>

text \<open>
  C4, as stated, fails: the specification's set has eleven extensions, and the name
  \<open>a.jpe\<close>, whose extension is not among them, is stored rather than rejected.
\<close>

theorem jpe_accepted_counterexample:
  "extension ''a.jpe'' = Inr ''jpe'' \<and> ''jpe'' \<notin> claimed_extensions
   \<and> fst (upload demo_env gif_upload ''a.jpe'' empty_state) = Inr (Identifier ''GsIQnUfbxyVR'')
   \<and> fs (snd (upload demo_env gif_upload ''a.jpe'' empty_state)) ''/srv/storage/GsIQnUfbxyVR.jpe''
       = Some ''GIF89a''"
proof -
  note u = upload_accepted [OF resulting_filename_gif_upload truthy_gif_upload extension_jpe
      jpe_in(1), of demo_env empty_state]
  show ?thesis
    unfolding u
    by (simp add: content_gif_upload to_id_gif extension_jpe jpe_in after_limit_def demo_env_def
        empty_state_def file_storage_def path_join_def redis_k_def Let_def)
qed

text \<open>
  C4, amended. With \<open>jpe\<close> added to the set (twelve extensions), \<open>upload\<close> answers
  ("no", 415) whenever the resulting filename has no extension in the set, and for a
  source that is true under \<open>if f\<close> it answers ("no", 415) in exactly that case.
\<close>

theorem upload_allowlist:
  assumes "resulting_filename env f filename = Inr fn"
  shows "((case extension fn of
             Inl e \<Rightarrow> True
           | Inr x \<Rightarrow> x \<notin> {''png'', ''jpg'', ''jpe'', ''jpeg'', ''svg'', ''gif'', ''ogv'', ''mp4'',
                        ''webm'', ''mp3'', ''ogg'', ''oga''})
          \<longrightarrow> upload env f filename s = (Inr (Status ''no'' 415), s))
       \<and> (truthy f \<longrightarrow>
            (fst (upload env f filename s) = Inr (Status ''no'' 415) \<longleftrightarrow>
             (case extension fn of
                Inl e \<Rightarrow> True
              | Inr x \<Rightarrow> x \<notin> {''png'', ''jpg'', ''jpe'', ''jpeg'', ''svg'', ''gif'', ''ogv'', ''mp4'',
                           ''webm'', ''mp3'', ''ogg'', ''oga''})))"
proof (cases "extension fn")
  case (Inl e)
  then have "allowed_file fn = Inr False" by (simp add: allowed_file_Inr)
  with assms Inl show ?thesis by (simp add: upload_rejected)
next
  case (Inr x)
  show ?thesis
  proof (cases "x \<in> EXTENSIONS")
    case True
    have "truthy f \<Longrightarrow> fst (upload env f filename s) \<noteq> Inr (Status ''no'' 415)"
      by (simp add: upload_accepted [OF assms _ Inr True] Let_def split: option.split rvalue.split)
    with True Inr show ?thesis by (auto simp: EXTENSIONS_eq)
  next
    case False
    with Inr have "allowed_file fn = Inr False" by (simp add: allowed_file_Inr)
    with assms False Inr show ?thesis by (simp add: upload_rejected EXTENSIONS_eq)
  qed
qed

theorem upload_allowlist_witness:
  "resulting_filename demo_env gif_upload ''setup.EXE'' = Inr ''setup.EXE''
   \<and> upload demo_env gif_upload ''setup.EXE'' empty_state = (Inr (Status ''no'' 415), empty_state)
   \<and> resulting_filename demo_env gif_upload ''cat.GIF'' = Inr ''cat.GIF''
   \<and> truthy gif_upload
   \<and> fst (upload demo_env gif_upload ''cat.GIF'' empty_state) \<noteq> Inr (Status ''no'' 415)"
  using upload_allowlist [of demo_env gif_upload "''setup.EXE''" "''setup.EXE''" empty_state,
      OF resulting_filename_gif_upload]
    upload_allowlist [of demo_env gif_upload "''cat.GIF''" "''cat.GIF''" empty_state,
      OF resulting_filename_gif_upload]
  by (simp add: resulting_filename_gif_upload truthy_gif_upload extension_exe extension_gif)

subsection \<open>Rejection leaves everything alone\<close>

text \<open>
  C7, as stated, fails for the allowed set that the specification lists: the extension of
  \<open>photo.JPE\<close> is outside it, yet the upload is not answered with ("no", 415); a file, a
  metadata record, a queue entry and a lock marker are written.
\<close>

theorem jpe_upload_touches_state_counterexample:
  "extension ''photo.JPE'' = Inr ''jpe'' \<and> ''jpe'' \<notin> claimed_extensions
   \<and> fst (upload demo_env gif_upload ''photo.JPE'' empty_state) \<noteq> Inr (Status ''no'' 415)
   \<and> fs (snd (upload demo_env gif_upload ''photo.JPE'' empty_state))
        ''/srv/storage/GsIQnUfbxyVR.jpe'' = Some ''GIF89a''
   \<and> metadata (snd (upload demo_env gif_upload ''photo.JPE'' empty_state)) ''GsIQnUfbxyVR''
       = Some \<lparr>hash = ''GsIQnUfbxyVR'', original = ''GsIQnUfbxyVR.jpe'', compression = 6,
               ip = ''203.0.113.7''\<rparr>
   \<and> redis (snd (upload demo_env gif_upload ''photo.JPE'' empty_state)) ''mediacrush.gifqueue''
       = Some (RList [''GsIQnUfbxyVR''])
   \<and> redis (snd (upload demo_env gif_upload ''photo.JPE'' empty_state))
        ''mediacrush.GsIQnUfbxyVR.lock'' = Some (RString ''1'')"
proof -
  have e: "extension ''photo.JPE'' = Inr ''jpe''" by code_simp
  note u = upload_accepted [OF resulting_filename_gif_upload truthy_gif_upload e jpe_in(1),
      of demo_env empty_state]
  have l: "length (content gif_upload) = 6" by (simp add: gif_upload_def)
  have "upload demo_env gif_upload ''photo.JPE'' empty_state
     = (Inr (Identifier ''GsIQnUfbxyVR''),
        \<lparr>fs = [''/srv/storage/GsIQnUfbxyVR.jpe'' \<mapsto> ''GIF89a''],
         metadata = [''GsIQnUfbxyVR'' \<mapsto>
            \<lparr>hash = ''GsIQnUfbxyVR'', original = ''GsIQnUfbxyVR.jpe'', compression = 6,
             ip = ''203.0.113.7''\<rparr>],
         redis = [''mediacrush.gifqueue'' \<mapsto> RList [''GsIQnUfbxyVR''],
                  ''mediacrush.GsIQnUfbxyVR.lock'' \<mapsto> RString ''1''],
         ratelimit = 6, stdout = []\<rparr>)"
    unfolding u after_limit_def l
    by (simp add: content_gif_upload to_id_gif demo_env_def empty_state_def
        file_storage_def path_join_def redis_k_def Let_def)
  then show ?thesis by (simp add: e jpe_in)
qed

text \<open>
  C7, amended. When the resulting filename has an extension and that extension is outside
  the twelve extensions of \<open>EXTENSIONS\<close> (the specification's eleven and \<open>jpe\<close>),
  \<open>upload\<close> returns ("no", 415) and the state it returns is the state it was given:
  files, metadata, redis keys (queue, lock and error markers), rate limiter and output
  are all untouched.
\<close>

theorem upload_unsupported_untouched:
  assumes "resulting_filename env f filename = Inr fn"
      and "extension fn = Inr x"
      and "x \<notin> {''png'', ''jpg'', ''jpe'', ''jpeg'', ''svg'', ''gif'', ''ogv'', ''mp4'', ''webm'',
                 ''mp3'', ''ogg'', ''oga''}"
  shows "upload env f filename s = (Inr (Status ''no'' 415), s)"
proof -
  from assms(2,3) have "allowed_file fn = Inr False"
    by (simp add: allowed_file_Inr EXTENSIONS_eq)
  with assms(1) show ?thesis by (simp add: upload_rejected)
qed

theorem upload_unsupported_untouched_witness:
  "resulting_filename demo_env (gif_upload\<lparr>content_type := Some ''text/plain''\<rparr>) ''notes''
     = Inr ''notes.txt''
   \<and> extension ''notes.txt'' = Inr ''txt''
   \<and> ''txt'' \<notin> {''png'', ''jpg'', ''jpe'', ''jpeg'', ''svg'', ''gif'', ''ogv'', ''mp4'', ''webm'',
               ''mp3'', ''ogg'', ''oga''}
   \<and> upload demo_env (gif_upload\<lparr>content_type := Some ''text/plain''\<rparr>) ''notes'' empty_state
       = (Inr (Status ''no'' 415), empty_state)"
proof -
  have a: "resulting_filename demo_env (gif_upload\<lparr>content_type := Some ''text/plain''\<rparr>) ''notes''
     = Inr ''notes.txt''"
    by (simp add: resulting_filename_def gif_upload_def demo_env_def mime_table_def)
  have b: "extension ''notes.txt'' = Inr ''txt''"
    by code_simp
  have c: "''txt'' \<notin> {''png'', ''jpg'', ''jpe'', ''jpeg'', ''svg'', ''gif'', ''ogv'', ''mp4'', ''webm'',
               ''mp3'', ''ogg'', ''oga''}"
    by simp
  from upload_unsupported_untouched [OF a b c, of empty_state] have
    "upload demo_env (gif_upload\<lparr>content_type := Some ''text/plain''\<rparr>) ''notes'' empty_state
       = (Inr (Status ''no'' 415), empty_state)" .
  with a b c show ?thesis by blast
qed

text \<open>
  C10. When the resulting filename contains no dot, \<open>extension\<close> would raise IndexError,
  but \<open>allowed_file\<close> answers False without evaluating it, and \<open>upload\<close> returns
  ("no", 415) with the state unchanged instead of raising.
\<close>

theorem upload_no_dot_rejected:
  assumes "resulting_filename env f filename = Inr fn" and "CHR ''.'' \<notin> set fn"
  shows "extension fn = Inl IndexError \<and> allowed_file fn = Inr False
         \<and> upload env f filename s = (Inr (Status ''no'' 415), s)"
proof -
  from assms(2) have a: "allowed_file fn = Inr False" by (simp add: allowed_file_def)
  with assms show ?thesis by (simp add: upload_rejected extension_no_dot)
qed

theorem upload_no_dot_rejected_witness:
  "resulting_filename demo_env gif_upload ''README'' = Inr ''README''
   \<and> CHR ''.'' \<notin> set ''README''
   \<and> extension ''README'' = Inl IndexError \<and> allowed_file ''README'' = Inr False
   \<and> upload demo_env gif_upload ''README'' empty_state = (Inr (Status ''no'' 415), empty_state)"
proof -
  have d: "CHR ''.'' \<notin> set ''README''" by simp
  from upload_no_dot_rejected [OF resulting_filename_gif_upload d, of demo_env empty_state]
  show ?thesis by (simp add: resulting_filename_gif_upload)
qed

lemma extension_cat_gif: "extension ''cat.gif'' = Inr ''gif''"
  by code_simp

lemma extension_cat_png: "extension ''cat.png'' = Inr ''png''"
  by code_simp

lemma gif_png_in: "''gif'' \<in> EXTENSIONS" "''png'' \<in> EXTENSIONS"
  by (simp_all add: EXTENSIONS_eq)

lemma length_content_gif_upload: "length (content gif_upload) = 6"
  by (simp add: gif_upload_def)

lemma first_upload_stored:
  "upload demo_env gif_upload ''cat.gif'' empty_state
     = (Inr (Identifier ''GsIQnUfbxyVR''), stored_state)"
proof -
  note u = upload_accepted [OF resulting_filename_gif_upload truthy_gif_upload extension_cat_gif
      gif_png_in(1), of demo_env empty_state]
  show ?thesis
    unfolding u after_limit_def length_content_gif_upload
    by (simp add: content_gif_upload to_id_gif demo_env_def empty_state_def
        stored_state_def gif_item_def file_storage_def path_join_def redis_k_def Let_def)
qed

subsection \<open>Rate limiting\<close>

text \<open>
  C8, as stated, fails: outside debug mode, a source that is false under \<open>if f\<close> and whose
  resulting filename \<open>.gif\<close> has an allowed extension is answered with ("no", 415) and
  nothing is recorded in the rate limiter.
\<close>

theorem falsy_source_not_recorded_counterexample:
  "\<not> debug demo_env
   \<and> resulting_filename demo_env nameless_upload '''' = Inr ''.gif''
   \<and> allowed_file ''.gif'' = Inr True
   \<and> upload demo_env nameless_upload '''' empty_state = (Inr (Status ''no'' 415), empty_state)
   \<and> ratelimit (snd (upload demo_env nameless_upload '''' empty_state))
       \<noteq> rate_limit_update demo_env (length (content nameless_upload)) (ratelimit empty_state)"
proof -
  have r: "resulting_filename demo_env nameless_upload '''' = Inr ''.gif''"
    by (simp add: resulting_filename_def nameless_upload_def demo_env_def mime_table_def)
  have e: "extension ''.gif'' = Inr ''gif''" by code_simp
  have a: "allowed_file ''.gif'' = Inr True"
    by (simp add: allowed_file_Inr e EXTENSIONS_eq)
  have f: "\<not> truthy nameless_upload" by (simp add: nameless_upload_def)
  have u: "upload demo_env nameless_upload '''' empty_state
      = (Inr (Status ''no'' 415), empty_state)"
    using r f by (simp add: upload_rejected)
  have n: "ratelimit empty_state
      \<noteq> rate_limit_update demo_env (length (content nameless_upload)) (ratelimit empty_state)"
    by (simp add: empty_state_def demo_env_def nameless_upload_def)
  have d: "\<not> debug demo_env" by (simp add: demo_env_def)
  from d r a u n show ?thesis by simp
qed

text \<open>
  C8, amended. For a source that is true under \<open>if f\<close> and passes the allow-list: outside
  debug mode the byte length of the source is recorded in the rate limiter whatever
  happens afterwards, the limit is tested on the state after recording, and when it is
  exceeded \<open>upload\<close> returns ("ratelimit", 420) from a state that differs from the
  initial one in the recorded usage only. In debug mode the rate limiter is neither
  updated nor consulted.
\<close>

theorem upload_rate_limit_order:
  assumes "resulting_filename env f filename = Inr fn" and "truthy f"
      and "extension fn = Inr x" and "x \<in> EXTENSIONS"
  shows "(\<not> debug env \<longrightarrow>
            ratelimit (snd (upload env f filename s))
              = rate_limit_update env (length (content f)) (ratelimit s))
       \<and> (\<not> debug env \<longrightarrow>
            (fst (upload env f filename s) = Inr (Status ''ratelimit'' 420)
             \<longleftrightarrow> rate_limit_exceeded env (rate_limit_update env (length (content f)) (ratelimit s))))
       \<and> (\<not> debug env
            \<and> rate_limit_exceeded env (rate_limit_update env (length (content f)) (ratelimit s))
          \<longrightarrow> upload env f filename s
                = (Inr (Status ''ratelimit'' 420),
                   s\<lparr>ratelimit := rate_limit_update env (length (content f)) (ratelimit s)\<rparr>))
       \<and> (debug env \<longrightarrow>
            ratelimit (snd (upload env f filename s)) = ratelimit s
            \<and> fst (upload env f filename s) \<noteq> Inr (Status ''ratelimit'' 420))"
  by (simp add: upload_accepted [OF assms] Let_def after_limit_def split: option.split rvalue.split)

theorem upload_rate_limit_order_witness:
  "\<not> debug demo_env
   \<and> upload demo_env gif_upload ''cat.gif'' (empty_state\<lparr>ratelimit := 999\<rparr>)
       = (Inr (Status ''ratelimit'' 420), empty_state\<lparr>ratelimit := 1005\<rparr>)
   \<and> ratelimit (snd (upload demo_env gif_upload ''cat.gif'' empty_state)) = 6
   \<and> fst (upload demo_env gif_upload ''cat.gif'' empty_state) \<noteq> Inr (Status ''ratelimit'' 420)
   \<and> debug (demo_env\<lparr>debug := True\<rparr>)
   \<and> ratelimit (snd (upload (demo_env\<lparr>debug := True\<rparr>) gif_upload ''cat.gif''
         (empty_state\<lparr>ratelimit := 999\<rparr>))) = 999
   \<and> fst (upload (demo_env\<lparr>debug := True\<rparr>) gif_upload ''cat.gif''
         (empty_state\<lparr>ratelimit := 999\<rparr>)) \<noteq> Inr (Status ''ratelimit'' 420)"
  using
    upload_rate_limit_order [OF resulting_filename_gif_upload truthy_gif_upload extension_cat_gif
      gif_png_in(1), of demo_env "empty_state\<lparr>ratelimit := 999\<rparr>"]
    upload_rate_limit_order [OF resulting_filename_gif_upload truthy_gif_upload extension_cat_gif
      gif_png_in(1), of demo_env empty_state]
    upload_rate_limit_order [OF resulting_filename_gif_upload truthy_gif_upload extension_cat_gif
      gif_png_in(1), of "demo_env\<lparr>debug := True\<rparr>" "empty_state\<lparr>ratelimit := 999\<rparr>"]
  by (simp add: length_content_gif_upload demo_env_def empty_state_def)

subsection \<open>Duplicates\<close>

text \<open>
  C6. When an ingestion gets as far as the existence test (the source passes the
  allow-list and the rate limiter does not stop it) and the file
  \<open><identifier>.<extension>\<close> is already in the store, \<open>upload\<close> returns the identifier
  with status 409, and the files, the metadata store, the redis keyspace (job queue and
  markers) and the output are exactly as before; only the rate limiter has recorded the
  call.
\<close>

theorem upload_duplicate_no_mutation:
  assumes "resulting_filename env f filename = Inr fn" and "truthy f"
      and "extension fn = Inr x" and "x \<in> EXTENSIONS"
      and "debug env
           \<or> \<not> rate_limit_exceeded env (rate_limit_update env (length (content f)) (ratelimit s))"
      and "fs s (file_storage env (to_id (md5 (content f)) @ ''.'' @ x)) \<noteq> None"
  shows "upload env f filename s
           = (Inr (Status (to_id (md5 (content f))) 409), after_limit env f s)
       \<and> fs (snd (upload env f filename s)) = fs s
       \<and> metadata (snd (upload env f filename s)) = metadata s
       \<and> redis (snd (upload env f filename s)) = redis s
       \<and> stdout (snd (upload env f filename s)) = stdout s"
  using assms(5,6)
  by (auto simp: upload_accepted [OF assms(1-4)] Let_def after_limit_def)

theorem upload_duplicate_no_mutation_witness:
  "resulting_filename demo_env gif_upload ''again.GIF'' = Inr ''again.GIF''
   \<and> extension ''again.GIF'' = Inr ''gif''
   \<and> fs stored_state (file_storage demo_env (to_id (md5 (content gif_upload)) @ ''.'' @ ''gif''))
       = Some ''GIF89a''
   \<and> upload demo_env gif_upload ''again.GIF'' stored_state
       = (Inr (Status ''GsIQnUfbxyVR'' 409), stored_state\<lparr>ratelimit := 12\<rparr>)"
proof -
  have e: "extension ''again.GIF'' = Inr ''gif''" by code_simp
  have l: "debug demo_env \<or> \<not> rate_limit_exceeded demo_env
            (rate_limit_update demo_env (length (content gif_upload)) (ratelimit stored_state))"
    by (simp add: demo_env_def length_content_gif_upload stored_state_def)
  have p: "fs stored_state (file_storage demo_env (to_id (md5 (content gif_upload)) @ ''.'' @ ''gif''))
       \<noteq> None"
    by (simp add: content_gif_upload to_id_gif file_storage_def path_join_def demo_env_def
        stored_state_def)
  from upload_duplicate_no_mutation [OF resulting_filename_gif_upload truthy_gif_upload e
      gif_png_in(1) l p]
  have "upload demo_env gif_upload ''again.GIF'' stored_state
       = (Inr (Status ''GsIQnUfbxyVR'' 409), stored_state\<lparr>ratelimit := 12\<rparr>)"
    unfolding after_limit_def length_content_gif_upload
    by (simp add: content_gif_upload to_id_gif demo_env_def stored_state_def)
  with p show ?thesis
    by (simp add: e resulting_filename_gif_upload content_gif_upload to_id_gif
        file_storage_def path_join_def demo_env_def stored_state_def)
qed

subsection \<open>The MediaItem record\<close>

lemma upload_Identifier_inv:
  assumes "upload env f filename s = (Inr (Identifier i), s')"
      and "resulting_filename env f filename = Inr fn"
  shows "truthy f \<and> i = to_id (md5 (content f))
         \<and> (case extension fn of
               Inl e \<Rightarrow> False
             | Inr x \<Rightarrow> x \<in> EXTENSIONS
                 \<and> fs s' (file_storage env (i @ ''.'' @ x)) = Some (content f)
                 \<and> metadata s' i = Some \<lparr>hash = i, original = i @ ''.'' @ x,
                      compression = length (content f), ip = secure_ip env\<rparr>)"
proof (cases "truthy f")
  case False
  with assms show ?thesis by (simp add: upload_rejected)
next
  case True
  show ?thesis
  proof (cases "extension fn")
    case (Inl e)
    then have "allowed_file fn = Inr False" by (simp add: allowed_file_Inr)
    with assms show ?thesis by (simp add: upload_rejected)
  next
    case (Inr x)
    show ?thesis
    proof (cases "x \<in> EXTENSIONS")
      case False
      with Inr have "allowed_file fn = Inr False" by (simp add: allowed_file_Inr)
      with assms show ?thesis by (simp add: upload_rejected)
    next
      case xin: True
      from assms(1) show ?thesis
        unfolding upload_accepted [OF assms(2) True Inr xin]
        by (auto simp: Let_def True Inr xin split: if_splits option.splits rvalue.splits)
    qed
  qed
qed

text \<open>
  C5, as stated, fails: after the source was stored as \<open>cat.gif\<close>, ingesting the same
  bytes as \<open>cat.png\<close> is answered with the same identifier as a fresh ingestion, and the
  MediaItem record of that identifier now names the \<open>png\<close> file.
\<close>

theorem record_rewritten_counterexample:
  "upload demo_env gif_upload ''cat.gif'' empty_state
     = (Inr (Identifier ''GsIQnUfbxyVR''), stored_state)
   \<and> metadata stored_state ''GsIQnUfbxyVR''
       = Some \<lparr>hash = ''GsIQnUfbxyVR'', original = ''GsIQnUfbxyVR.gif'', compression = 6,
               ip = ''203.0.113.7''\<rparr>
   \<and> fst (upload demo_env gif_upload ''cat.png'' stored_state) = Inr (Identifier ''GsIQnUfbxyVR'')
   \<and> metadata (snd (upload demo_env gif_upload ''cat.png'' stored_state)) ''GsIQnUfbxyVR''
       = Some \<lparr>hash = ''GsIQnUfbxyVR'', original = ''GsIQnUfbxyVR.png'', compression = 6,
               ip = ''203.0.113.7''\<rparr>
   \<and> redis (snd (upload demo_env gif_upload ''cat.png'' stored_state)) ''mediacrush.gifqueue''
       = Some (RList [''GsIQnUfbxyVR'', ''GsIQnUfbxyVR''])"
proof -
  note u = upload_accepted [OF resulting_filename_gif_upload truthy_gif_upload extension_cat_png
      gif_png_in(2), of demo_env stored_state]
  have "fst (upload demo_env gif_upload ''cat.png'' stored_state) = Inr (Identifier ''GsIQnUfbxyVR'')
   \<and> metadata (snd (upload demo_env gif_upload ''cat.png'' stored_state)) ''GsIQnUfbxyVR''
       = Some \<lparr>hash = ''GsIQnUfbxyVR'', original = ''GsIQnUfbxyVR.png'', compression = 6,
               ip = ''203.0.113.7''\<rparr>
   \<and> redis (snd (upload demo_env gif_upload ''cat.png'' stored_state)) ''mediacrush.gifqueue''
       = Some (RList [''GsIQnUfbxyVR'', ''GsIQnUfbxyVR''])"
    unfolding u after_limit_def length_content_gif_upload
    by (simp add: content_gif_upload to_id_gif demo_env_def stored_state_def
        file_storage_def path_join_def redis_k_def Let_def)
  then show ?thesis
    by (simp add: first_upload_stored) (simp add: stored_state_def gif_item_def)
qed

text \<open>
  From the first ingestion on: once an ingestion has stored a content and created its
  record, a later ingestion of the same bytes with the same extension, made in the state
  the first one left, does not change the metadata store.
\<close>

lemma first_upload_then_same_extension:
  assumes "upload env1 f1 name1 s0 = (Inr (Identifier i), s1)"
      and "resulting_filename env1 f1 name1 = Inr fn1"
      and "resulting_filename env2 f2 name2 = Inr fn2"
      and "content f2 = content f1"
      and "extension fn2 = extension fn1"
      and "storage_folder env2 = storage_folder env1"
  shows "metadata (snd (upload env2 f2 name2 s1)) = metadata s1
       \<and> metadata s1 i \<noteq> None
       \<and> fst (upload env2 f2 name2 s1)
           \<in> {Inr (Status i 409), Inr (Status ''ratelimit'' 420), Inr (Status ''no'' 415)}"
proof -
  from upload_Identifier_inv [OF assms(1,2)]
  obtain x where x: "extension fn1 = Inr x" "x \<in> EXTENSIONS"
      and i: "i = to_id (md5 (content f1))"
      and blob: "fs s1 (file_storage env1 (i @ ''.'' @ x)) = Some (content f1)"
      and rec: "metadata s1 i \<noteq> None"
    by (cases "extension fn1") auto
  have path: "file_storage env2 (i @ ''.'' @ x) = file_storage env1 (i @ ''.'' @ x)"
    by (simp add: file_storage_def assms(6))
  show ?thesis
  proof (cases "truthy f2")
    case False
    with assms(3) rec show ?thesis by (simp add: upload_rejected)
  next
    case True
    from x assms(5) have x2: "extension fn2 = Inr x" by simp
    from blob path i assms(4) rec show ?thesis
      unfolding upload_accepted [OF assms(3) True x2 x(2)]
      by (auto simp: Let_def after_limit_def)
  qed
qed

text \<open>
  C5, amended. In every state in which the file \<open><identifier>.<extension>\<close> of a content
  is in the store, an ingestion of the same bytes whose resulting filename has that
  extension, whatever its filename and declared content type, leaves the whole metadata
  store as it is: it is answered with (identifier, 409), or stopped by the rate limiter
  (420) or as unsupported (415).
\<close>

theorem record_write_once_same_extension:
  assumes "resulting_filename env f filename = Inr fn"
      and "extension fn = Inr x"
      and "fs s (file_storage env (to_id (md5 (content f)) @ ''.'' @ x)) \<noteq> None"
  shows "metadata (snd (upload env f filename s)) = metadata s
       \<and> fst (upload env f filename s)
           \<in> {Inr (Status (to_id (md5 (content f))) 409), Inr (Status ''ratelimit'' 420),
              Inr (Status ''no'' 415)}"
proof (cases "truthy f \<and> x \<in> EXTENSIONS")
  case True
  then have t: "truthy f" and xin: "x \<in> EXTENSIONS" by simp_all
  from assms(3) show ?thesis
    unfolding upload_accepted [OF assms(1) t assms(2) xin]
    by (auto simp: Let_def after_limit_def)
next
  case False
  with assms(2) have "\<not> truthy f \<or> allowed_file fn = Inr False"
    by (auto simp: allowed_file_Inr)
  with assms(1) show ?thesis by (simp add: upload_rejected)
qed

theorem record_write_once_same_extension_witness:
  "resulting_filename demo_env (gif_upload\<lparr>content_type := Some ''image/gif''\<rparr>) ''other''
       = Inr ''other.gif''
   \<and> extension ''other.gif'' = Inr ''gif''
   \<and> fs failed_state (file_storage demo_env
         (to_id (md5 (content (gif_upload\<lparr>content_type := Some ''image/gif''\<rparr>))) @ ''.'' @ ''gif''))
       \<noteq> None
   \<and> metadata (snd (upload demo_env (gif_upload\<lparr>content_type := Some ''image/gif''\<rparr>) ''other''
         failed_state)) = metadata failed_state
   \<and> metadata failed_state ''GsIQnUfbxyVR'' = Some gif_item"
proof -
  have r: "resulting_filename demo_env (gif_upload\<lparr>content_type := Some ''image/gif''\<rparr>) ''other''
       = Inr ''other.gif''"
    by (simp add: resulting_filename_def gif_upload_def demo_env_def mime_table_def)
  have e: "extension ''other.gif'' = Inr ''gif''" by code_simp
  have c: "content (gif_upload\<lparr>content_type := Some ''image/gif''\<rparr>) = ''GIF89a''"
    by (simp add: gif_upload_def)
  have p: "fs failed_state (file_storage demo_env
         (to_id (md5 (content (gif_upload\<lparr>content_type := Some ''image/gif''\<rparr>))) @ ''.'' @ ''gif''))
       \<noteq> None"
    unfolding c to_id_gif
    by (simp add: file_storage_def path_join_def demo_env_def failed_state_def stored_state_def)
  have m: "metadata failed_state ''GsIQnUfbxyVR'' = Some gif_item"
    by (simp add: failed_state_def stored_state_def)
  from record_write_once_same_extension [OF r e p] have
    "metadata (snd (upload demo_env (gif_upload\<lparr>content_type := Some ''image/gif''\<rparr>) ''other''
         failed_state)) = metadata failed_state"
    by (rule conjunct1)
  with r e p m show ?thesis by blast
qed

subsection \<open>Processing status\<close>

lemma pct_format_prefix:
  "CHR ''%'' \<notin> set p \<Longrightarrow>
     pct_format (p @ t) as = (case pct_format t as of Inl e \<Rightarrow> Inl e | Inr r \<Rightarrow> Inr (p @ r))"
  by (induction p) (auto split: sum.splits)

lemma pct_format_lock: "pct_format ''%s.lock'' [x] = Inr (x @ ''.lock'')"
  by simp

lemma pct_format_error: "pct_format ''%s.error'' [x] = Inr (x @ ''.error'')"
  by simp

lemma pct_format_name: "pct_format ''%s.%s'' [x, y] = Inr (x @ ''.'' @ y)"
  by simp

lemma delete_key_is_error_key:
  "CHR ''%'' \<notin> set (redis_prefix env) \<Longrightarrow>
     pct_format (redis_k env ''%s.error'') [ident] = Inr (redis_k env (ident @ ''.error''))"
  by (simp add: redis_k_def pct_format_prefix)

text \<open>
  C3. With a key prefix free of \<open>%\<close>, for an identifier whose lock marker is absent and
  whose error marker holds a token (such as \<open>transcode-failed\<close>), \<open>processing_status\<close>
  returns the token and removes the error marker and nothing else; called again on the
  state it left, it returns \<open>done\<close> and changes nothing.
\<close>

theorem error_marker_consumed_once:
  assumes "CHR ''%'' \<notin> set (redis_prefix env)"
      and "redis s (redis_k env (ident @ ''.lock'')) = None"
      and "redis s (redis_k env (ident @ ''.error'')) = Some (RString token)"
  shows "processing_status env ident s
           = (Inr (Some token), s\<lparr>redis := (redis s)(redis_k env (ident @ ''.error'') := None)\<rparr>)
       \<and> redis (snd (processing_status env ident s)) (redis_k env (ident @ ''.error'')) = None
       \<and> processing_status env ident (snd (processing_status env ident s))
           = (Inr (Some ''done''), snd (processing_status env ident s))"
proof -
  have first: "processing_status env ident s
           = (Inr (Some token), s\<lparr>redis := (redis s)(redis_k env (ident @ ''.error'') := None)\<rparr>)"
    using assms
    by (simp add: processing_status_def r_exists_def r_get_def r_delete_def
        delete_key_is_error_key)
  have second: "processing_status env ident
           (s\<lparr>redis := (redis s)(redis_k env (ident @ ''.error'') := None)\<rparr>)
           = (Inr (Some ''done''), s\<lparr>redis := (redis s)(redis_k env (ident @ ''.error'') := None)\<rparr>)"
    using assms(2) by (simp add: processing_status_def r_exists_def)
  from first second show ?thesis by simp
qed

theorem error_marker_consumed_once_witness:
  "CHR ''%'' \<notin> set (redis_prefix demo_env)
   \<and> redis failed_state (redis_k demo_env (''GsIQnUfbxyVR'' @ ''.lock'')) = None
   \<and> redis failed_state (redis_k demo_env (''GsIQnUfbxyVR'' @ ''.error''))
       = Some (RString ''transcode-failed'')
   \<and> fst (processing_status demo_env ''GsIQnUfbxyVR'' failed_state) = Inr (Some ''transcode-failed'')
   \<and> redis (snd (processing_status demo_env ''GsIQnUfbxyVR'' failed_state))
         ''mediacrush.GsIQnUfbxyVR.error'' = None
   \<and> fst (processing_status demo_env ''GsIQnUfbxyVR''
         (snd (processing_status demo_env ''GsIQnUfbxyVR'' failed_state))) = Inr (Some ''done'')"
proof -
  have a: "CHR ''%'' \<notin> set (redis_prefix demo_env)" by (simp add: demo_env_def)
  have b: "redis failed_state (redis_k demo_env (''GsIQnUfbxyVR'' @ ''.lock'')) = None"
    by (simp add: failed_state_def redis_k_def demo_env_def)
  have c: "redis failed_state (redis_k demo_env (''GsIQnUfbxyVR'' @ ''.error''))
       = Some (RString ''transcode-failed'')"
    by (simp add: failed_state_def redis_k_def demo_env_def)
  have k: "redis_k demo_env (''GsIQnUfbxyVR'' @ ''.error'') = ''mediacrush.GsIQnUfbxyVR.error''"
    by (simp add: redis_k_def demo_env_def)
  note t = error_marker_consumed_once [OF a b c]
  from t have t1: "fst (processing_status demo_env ''GsIQnUfbxyVR'' failed_state)
      = Inr (Some ''transcode-failed'')"
    by (simp only: fst_conv)
  from t have t2: "redis (snd (processing_status demo_env ''GsIQnUfbxyVR'' failed_state))
      ''mediacrush.GsIQnUfbxyVR.error'' = None"
    unfolding k by blast
  from t have "processing_status demo_env ''GsIQnUfbxyVR''
         (snd (processing_status demo_env ''GsIQnUfbxyVR'' failed_state))
      = (Inr (Some ''done''), snd (processing_status demo_env ''GsIQnUfbxyVR'' failed_state))"
    by blast
  then have t3: "fst (processing_status demo_env ''GsIQnUfbxyVR''
         (snd (processing_status demo_env ''GsIQnUfbxyVR'' failed_state))) = Inr (Some ''done'')"
    by (simp only: fst_conv)
  from a b c t1 t2 t3 show ?thesis by blast
qed

text \<open>
  The restriction on the prefix matters: the key that is deleted is formatted after the
  prefix was put in front, so a \<open>%\<close> in the prefix is read as a conversion. With the
  prefix \<open>100%%.\<close> the marker is read under one key and deleted under another, and the
  token is reported again.
\<close>

lemma percent_prefix_marker_survives:
  "fst (processing_status (demo_env\<lparr>redis_prefix := ''100%%.''\<rparr>) ''abc''
          (empty_state\<lparr>redis := [''100%%.abc.error'' \<mapsto> RString ''transcode-failed'']\<rparr>))
     = Inr (Some ''transcode-failed'')
   \<and> redis (snd (processing_status (demo_env\<lparr>redis_prefix := ''100%%.''\<rparr>) ''abc''
          (empty_state\<lparr>redis := [''100%%.abc.error'' \<mapsto> RString ''transcode-failed'']\<rparr>)))
         ''100%%.abc.error'' = Some (RString ''transcode-failed'')"
  by (simp add: processing_status_def r_exists_def r_get_def r_delete_def redis_k_def
      demo_env_def empty_state_def)

subsection \<open>Deletion\<close>

lemma delete_file_storage_eq:
  "delete_file_storage env path s = s\<lparr>stdout := stdout s @ [''Failed to delete file '' @ path]\<rparr>"
  by (simp add: delete_file_storage_def load_name_def)

lemma delete_renditions_fs: "fs (delete_renditions env h exts s) = fs s"
  by (induction exts arbitrary: s) (simp_all add: delete_file_storage_eq)

lemma delete_file_keeps_files: "fs (snd (delete_file env f s)) = fs s"
  by (simp add: delete_file_def File_delete_def delete_file_storage_eq delete_renditions_fs Let_def
      split: sum.split option.split)

lemma gif_not_a_table_key: "map_of processing_needed ''gif'' = None"
  by (simp add: processing_needed_def)

lemma extension_stored_gif: "extension ''GsIQnUfbxyVR.gif'' = Inr ''gif''"
  by code_simp

text \<open>
  C2 on the code: deleting the item of the transcoded GIF removes its metadata record and
  prints one failure message, and every file is still in the store, the original
  included; no rendition was even tried, since the table has no key \<open>gif\<close>.
\<close>

theorem delete_file_leaves_blobs:
  "delete_file demo_env big_gif_item transcoded_state
     = (Inr (), transcoded_state\<lparr>metadata := Map.empty,
                                  stdout := [''Failed to delete file GsIQnUfbxyVR.gif'']\<rparr>)
   \<and> fs (snd (delete_file demo_env big_gif_item transcoded_state)) ''/srv/storage/GsIQnUfbxyVR.gif''
       = Some (bytes_of_size 1000000)
   \<and> fs (snd (delete_file demo_env big_gif_item transcoded_state)) ''/srv/storage/GsIQnUfbxyVR.mp4''
       = Some (bytes_of_size 400000)"
proof -
  have o: "original big_gif_item = ''GsIQnUfbxyVR.gif''" "hash big_gif_item = ''GsIQnUfbxyVR''"
    by (simp_all add: big_gif_item_def)
  have d1: "delete_file demo_env big_gif_item transcoded_state
     = (Inr (), File_delete big_gif_item (transcoded_state\<lparr>stdout := stdout transcoded_state
           @ [''Failed to delete file GsIQnUfbxyVR.gif'']\<rparr>))"
    by (simp add: delete_file_def o extension_stored_gif gif_not_a_table_key
        delete_file_storage_eq)
  have d2: "File_delete big_gif_item (transcoded_state\<lparr>stdout := stdout transcoded_state
           @ [''Failed to delete file GsIQnUfbxyVR.gif'']\<rparr>)
     = transcoded_state\<lparr>metadata := Map.empty,
                          stdout := [''Failed to delete file GsIQnUfbxyVR.gif'']\<rparr>"
    by (simp add: File_delete_def o transcoded_state_def)
  have f1: "fs transcoded_state ''/srv/storage/GsIQnUfbxyVR.gif'' = Some (bytes_of_size 1000000)"
    by (simp add: transcoded_state_def)
  have f2: "fs transcoded_state ''/srv/storage/GsIQnUfbxyVR.mp4'' = Some (bytes_of_size 400000)"
    by (simp add: transcoded_state_def)
  show ?thesis
    unfolding d1 d2 by (simp add: f1 f2)
qed

subsection \<open>Compression accounting\<close>

lemma table_keys_have_slash: "k \<in> fst ` set processing_needed \<Longrightarrow> CHR ''/'' \<in> set k"
  by (auto simp: processing_needed_def)

lemma allowed_extension_no_slash: "x \<in> EXTENSIONS \<Longrightarrow> CHR ''/'' \<notin> set x"
  by (auto simp: EXTENSIONS_eq)

lemma allowed_extension_not_a_table_key: "x \<in> EXTENSIONS \<Longrightarrow> map_of processing_needed x = None"
proof -
  assume "x \<in> EXTENSIONS"
  then have "x \<notin> fst ` set processing_needed"
    using table_keys_have_slash allowed_extension_no_slash by blast
  then show ?thesis by (simp add: map_of_eq_None_iff)
qed

lemma compression_rate_allowed_extension:
  assumes "metadata s f = Some item" and "extension (original item) = Inr x"
      and "x \<in> EXTENSIONS"
  shows "compression_rate env f s = Inr RateZero"
  using assms
  by (simp add: compression_rate_def File_from_hash_def allowed_extension_not_a_table_key)

lemma upload_then_compression_rate:
  assumes "upload env f filename s = (Inr (Identifier i), s')"
  shows "compression_rate env' i s' = Inr RateZero"
proof -
  from assms obtain fn where fn: "resulting_filename env f filename = Inr fn"
    by (cases "resulting_filename env f filename") (auto simp: upload_def)
  from upload_Identifier_inv [OF assms fn] obtain x where
    x: "extension fn = Inr x" "x \<in> EXTENSIONS"
    and m: "metadata s' i = Some \<lparr>hash = i, original = i @ ''.'' @ x,
                      compression = length (content f), ip = secure_ip env\<rparr>"
    by (cases "extension fn") auto
  have nd: "CHR ''.'' \<notin> set x"
  proof
    assume "CHR ''.'' \<in> set x"
    with x(2) show False by (auto simp: EXTENSIONS_eq)
  qed
  then have tw: "takeWhile (\<lambda>c. c \<noteq> CHR ''.'') (rev x) = rev x"
    by (auto simp: takeWhile_eq_all_conv)
  have lo: "lower x = x"
    using x(2) by (auto simp: EXTENSIONS_eq lower_def lower_char_def)
  have "extension (i @ ''.'' @ x) = Inr x"
    by (simp add: extension_def rsplit1_def takeWhile_tail nd tw lo)
  with m x(2) show ?thesis
    by (simp add: compression_rate_allowed_extension)
qed

text \<open>
  C1 on the code: for the GIF of 1,000,000 bytes with renditions of 400,000 and 600,000
  bytes, \<open>compression_rate\<close> returns 0, not 2.5: the extension \<open>gif\<close> is looked up in a
  table whose keys are MIME types.
\<close>

theorem compression_rate_gif_is_zero:
  "compression_rate demo_env ''GsIQnUfbxyVR'' transcoded_state = Inr RateZero"
  by (simp add: compression_rate_def File_from_hash_def transcoded_state_def big_gif_item_def
      extension_stored_gif gif_not_a_table_key)

end
